theory Spec2Isabelle
  imports Complex_Main "HOL-Library.Log_Nat" "HOL-Library.Product_Lexorder"
    "HOL-Library.Sublist" "HOL-Library.Multiset"
begin

section \<open>Python values\<close>

text \<open>
  The two functions of \<^verbatim>\<open>utils.py\<close> work on the decoded JSON body of an HTTP
  response: \<^verbatim>\<open>None\<close>, booleans, unbounded integers, floats, strings, lists and
  dicts. A dict is an association list in insertion order, read with \<open>map_of\<close>.
  A string is a list of 8-bit characters, read as code points below 256; in that
  range the regular-expression class \<^verbatim>\<open>\d\<close> is exactly \<^verbatim>\<open>0-9\<close>.

  A float is an IEEE double: a finite value is kept as the rational it denotes,
  with the negative zero, the two infinities and NaN apart.
\<close>

datatype pyfloat = Finite rat | NegZero | PosInf | NegInf | NaN

datatype pyval =
    PNone
  | PBool bool
  | PInt int
  | PFloat pyfloat
  | PStr string
  | PList "pyval list"
  | PDict "(string \<times> pyval) list"

text \<open>The exception classes that the code raises or catches, and \<^verbatim>\<open>str(e)\<close>.\<close>

datatype exn_class = ValueError | TypeError | OverflowError | Exception

type_synonym exn = "exn_class \<times> string"

text \<open>\<^verbatim>\<open>type(v).__name__\<close>\<close>

fun type_name :: "pyval \<Rightarrow> string" where
  "type_name PNone = ''NoneType''"
| "type_name (PBool _) = ''bool''"
| "type_name (PInt _) = ''int''"
| "type_name (PFloat _) = ''float''"
| "type_name (PStr _) = ''str''"
| "type_name (PList _) = ''list''"
| "type_name (PDict _) = ''dict''"

text \<open>Truth value testing, as \<^verbatim>\<open>if v\<close> and \<^verbatim>\<open>not v\<close> do it.\<close>

fun truthy :: "pyval \<Rightarrow> bool" where
  "truthy PNone = False"
| "truthy (PBool b) = b"
| "truthy (PInt n) = (n \<noteq> 0)"
| "truthy (PFloat f) = (f \<noteq> Finite 0 \<and> f \<noteq> NegZero)"
| "truthy (PStr s) = (s \<noteq> [])"
| "truthy (PList xs) = (xs \<noteq> [])"
| "truthy (PDict kvs) = (kvs \<noteq> [])"

text \<open>\<^verbatim>\<open>isinstance(v, dict)\<close>\<close>

fun is_dict :: "pyval \<Rightarrow> bool" where
  "is_dict (PDict _) = True"
| "is_dict _ = False"

text \<open>\<^verbatim>\<open>d.get(key, default)\<close> on a dict \<open>d\<close>.\<close>

definition dict_get :: "(string \<times> pyval) list \<Rightarrow> string \<Rightarrow> pyval \<Rightarrow> pyval" where
  "dict_get kvs key dflt = (case map_of kvs key of None \<Rightarrow> dflt | Some v \<Rightarrow> v)"

text \<open>
  The items a \<^verbatim>\<open>for\<close> loop visits: the elements of a list, the one-character
  strings of a string, the keys of a dict. Anything else raises TypeError.
\<close>

definition not_iterable_msg :: "string \<Rightarrow> string" where
  "not_iterable_msg tname = [CHR 0x27] @ tname @ [CHR 0x27] @ '' object is not iterable''"

fun py_iter :: "pyval \<Rightarrow> exn + pyval list" where
  "py_iter (PList xs) = Inr xs"
| "py_iter (PStr s) = Inr (map (\<lambda>c. PStr [c]) s)"
| "py_iter (PDict kvs) = Inr (map (\<lambda>kv. PStr (fst kv)) kvs)"
| "py_iter v = Inl (TypeError, not_iterable_msg (type_name v))"

section \<open>Characters and the two substitutions\<close>

definition is_digit :: "char \<Rightarrow> bool" where
  "is_digit c = (c \<in> set ''0123456789'')"

definition digit_val :: "char \<Rightarrow> nat" where
  "digit_val c = of_char c - 48"

definition is_sign :: "char \<Rightarrow> bool" where
  "is_sign c = (c = CHR ''+'' \<or> c = CHR ''-'')"

text \<open>
  \<^verbatim>\<open>[+-]\d{4}$\<close> matched at the head of a string: a sign, four digits, and then
  the end of the string or the newline that ends it.
\<close>

fun offset_at :: "string \<Rightarrow> bool" where
  "offset_at (c # d1 # d2 # d3 # d4 # r) =
     (is_sign c \<and> is_digit d1 \<and> is_digit d2 \<and> is_digit d3 \<and> is_digit d4 \<and>
      (r = [] \<or> r = [CHR 0x0A]))"
| "offset_at _ = False"

text \<open>
  \<^verbatim>\<open>re.sub(r'[+-]\d{4}$', '', s)\<close>: the scan goes left to right, deletes a match
  and goes on behind it.
\<close>

fun re_sub_offset :: "string \<Rightarrow> string" where
  "re_sub_offset [] = []"
| "re_sub_offset (c # cs) =
     (if offset_at (c # cs) then re_sub_offset (drop 4 cs) else c # re_sub_offset cs)"

text \<open>
  \<^verbatim>\<open>re.sub(r'\.\d+', '', s)\<close>: a dot followed by at least one digit is deleted
  together with all the digits that follow it.
\<close>

function re_sub_fraction :: "string \<Rightarrow> string" where
  "re_sub_fraction [] = []"
| "re_sub_fraction (c # cs) =
     (if c = CHR ''.'' \<and> cs \<noteq> [] \<and> is_digit (hd cs)
      then re_sub_fraction (dropWhile is_digit cs)
      else c # re_sub_fraction cs)"
  by pat_completeness auto
termination
  by (relation "measure length") (auto intro: le_imp_less_Suc length_dropWhile_le)

section \<open>Parsing a timestamp\<close>

record datetime =
  year :: nat
  month :: nat
  day :: nat
  hour :: nat
  minute :: nat
  second :: nat

text \<open>Datetimes compare field by field, the year first.\<close>

definition dt_key :: "datetime \<Rightarrow> nat \<times> nat \<times> nat \<times> nat \<times> nat \<times> nat" where
  "dt_key d = (year d, month d, day d, hour d, minute d, second d)"

definition is_leap :: "nat \<Rightarrow> bool" where
  "is_leap y = (y mod 4 = 0 \<and> (y mod 100 \<noteq> 0 \<or> y mod 400 = 0))"

definition days_in_month :: "nat \<Rightarrow> nat \<Rightarrow> nat" where
  "days_in_month y m =
     (if m = 2 then (if is_leap y then 29 else 28)
      else if m \<in> {4, 6, 9, 11} then 30 else 31)"

text \<open>
  \<^verbatim>\<open>datetime.strptime(s, '%Y-%m-%dT%H:%M:%S')\<close> compiles the format to the
  regular expression
  \<^verbatim>\<open>(?P<Y>\d\d\d\d)-(?P<m>1[0-2]|0[1-9]|[1-9])-(?P<d>3[0-1]|[1-2]\d|0[1-9]|[1-9]| [1-9])T(?P<H>2[0-3]|[0-1]\d|\d):(?P<M>[0-5]\d|\d):(?P<S>6[0-1]|[0-5]\d|\d)\<close>,
  case-insensitive, matches it at the start of the string and takes the first
  match in backtracking order. A piece of the expression maps a string to its
  matches in that order, each with the text that is left.
\<close>

type_synonym 'a rx = "string \<Rightarrow> ('a \<times> string) list"

definition chr_in :: "string \<Rightarrow> char \<Rightarrow> bool" where
  "chr_in cls c = (c \<in> set cls)"

text \<open>\<^verbatim>\<open>int(s)\<close> on a group of digits; the day may begin with a blank.\<close>

definition int_of :: "string \<Rightarrow> nat" where
  "int_of s = foldl (\<lambda>n c. 10 * n + digit_val c) 0 (dropWhile (\<lambda>c. c = CHR '' '') s)"

definition rx1 :: "string \<Rightarrow> nat rx" where
  "rx1 cls s = (case s of a # r \<Rightarrow> if chr_in cls a then [(int_of [a], r)] else [] | _ \<Rightarrow> [])"

definition rx2 :: "string \<Rightarrow> string \<Rightarrow> nat rx" where
  "rx2 cls1 cls2 s =
     (case s of a # b # r \<Rightarrow> if chr_in cls1 a \<and> chr_in cls2 b then [(int_of [a, b], r)] else []
      | _ \<Rightarrow> [])"

definition alts :: "'a rx list \<Rightarrow> 'a rx" where
  "alts ps s = concat (map (\<lambda>p. p s) ps)"

definition lit :: "string \<Rightarrow> string \<Rightarrow> string list" where
  "lit cls s = (case s of c # r \<Rightarrow> if chr_in cls c then [r] else [] | _ \<Rightarrow> [])"

definition rx_Y :: "nat rx" where
  "rx_Y s =
     (case s of a # b # c # d # r \<Rightarrow>
        if is_digit a \<and> is_digit b \<and> is_digit c \<and> is_digit d then [(int_of [a, b, c, d], r)] else []
      | _ \<Rightarrow> [])"

definition rx_m :: "nat rx" where
  "rx_m = alts [rx2 ''1'' ''012'', rx2 ''0'' ''123456789'', rx1 ''123456789'']"

definition rx_d :: "nat rx" where
  "rx_d = alts [rx2 ''3'' ''01'', rx2 ''12'' ''0123456789'', rx2 ''0'' ''123456789'',
                rx1 ''123456789'', rx2 '' '' ''123456789'']"

definition rx_H :: "nat rx" where
  "rx_H = alts [rx2 ''2'' ''0123'', rx2 ''01'' ''0123456789'', rx1 ''0123456789'']"

definition rx_M :: "nat rx" where
  "rx_M = alts [rx2 ''012345'' ''0123456789'', rx1 ''0123456789'']"

definition rx_S :: "nat rx" where
  "rx_S = alts [rx2 ''6'' ''01'', rx2 ''012345'' ''0123456789'', rx1 ''0123456789'']"

definition format_regex :: "(nat \<times> nat \<times> nat \<times> nat \<times> nat \<times> nat) rx" where
  "format_regex s =
     [((Y, m, d, H, M, S), r).
        (Y, s1) \<leftarrow> rx_Y s, s2 \<leftarrow> lit ''-'' s1,
        (m, s3) \<leftarrow> rx_m s2, s4 \<leftarrow> lit ''-'' s3,
        (d, s5) \<leftarrow> rx_d s4, s6 \<leftarrow> lit ''Tt'' s5,
        (H, s7) \<leftarrow> rx_H s6, s8 \<leftarrow> lit '':'' s7,
        (M, s9) \<leftarrow> rx_M s8, s10 \<leftarrow> lit '':'' s9,
        (S, r) \<leftarrow> rx_S s10]"

text \<open>
  After the match, text that is left over, a year 0, a day the month does not
  have and a second above 59 all raise ValueError.
\<close>

definition strptime :: "string \<Rightarrow> exn_class + datetime" where
  "strptime s =
     (case format_regex s of
        [] \<Rightarrow> Inl ValueError
      | ((Y, m, d, H, M, S), r) # _ \<Rightarrow>
          if r \<noteq> [] then Inl ValueError
          else if Y < 1 \<or> days_in_month Y m < d then Inl ValueError
          else if 59 < S then Inl ValueError
          else Inr \<lparr>year = Y, month = m, day = d, hour = H, minute = M, second = S\<rparr>)"

section \<open>Converting a price to a float\<close>

definition pow2 :: "int \<Rightarrow> rat" where
  "pow2 e = (if 0 \<le> e then 2 ^ nat e else 1 / 2 ^ nat (- e))"

definition pow10 :: "int \<Rightarrow> rat" where
  "pow10 e = (if 0 \<le> e then 10 ^ nat e else 1 / 10 ^ nat (- e))"

text \<open>The exponent \<open>l\<close> with \<open>2 ^ l \<le> q < 2 ^ (l + 1)\<close>, for a positive \<open>q\<close>.\<close>

definition floor_log2 :: "rat \<Rightarrow> int" where
  "floor_log2 q =
     (let (a, b) = quotient_of q;
          l = bitlen a - bitlen b
      in if pow2 l \<le> q then l else l - 1)"

definition round_half_even :: "rat \<Rightarrow> int" where
  "round_half_even x =
     (let f = \<lfloor>x\<rfloor>; r = x - of_int f
      in if r < 1 / 2 then f else if 1 / 2 < r then f + 1 else if even f then f else f + 1)"

text \<open>
  The double nearest to a magnitude \<open>q \<ge> 0\<close> with the sign \<open>neg\<close>: 53 significant
  bits, ties to even, subnormal below \<open>2 ^ -1022\<close>, infinite from \<open>2 ^ 1024\<close> on.
\<close>

definition round_double :: "bool \<Rightarrow> rat \<Rightarrow> pyfloat" where
  "round_double neg q =
     (if q = 0 then (if neg then NegZero else Finite 0)
      else
        let e = max (floor_log2 q - 52) (- 1074);
            v = of_int (round_half_even (q / pow2 e)) * pow2 e
        in if pow2 1024 \<le> v then (if neg then NegInf else PosInf)
           else if v = 0 then (if neg then NegZero else Finite 0)
           else Finite (if neg then - v else v))"

text \<open>
  \<^verbatim>\<open>float(s)\<close> on a string strips white space at both ends, allows one
  underscore between two digits, and then reads a sign and
  \<^verbatim>\<open>inf\<close>, \<^verbatim>\<open>infinity\<close>, \<^verbatim>\<open>nan\<close> (in any case) or a decimal number
  with an optional exponent. Anything else raises ValueError.
\<close>

definition float_space :: "char \<Rightarrow> bool" where
  "float_space c = (c \<in> {CHR 0x09, CHR 0x0A, CHR 0x0B, CHR 0x0C, CHR 0x0D, CHR 0x20, CHR 0x85, CHR 0xA0})"

definition strip :: "string \<Rightarrow> string" where
  "strip s = rev (dropWhile float_space (rev (dropWhile float_space s)))"

fun strip_underscores :: "char \<Rightarrow> string \<Rightarrow> string option" where
  "strip_underscores prev [] = (if prev = CHR ''_'' then None else Some [])"
| "strip_underscores prev (c # cs) =
     (if c = CHR ''_'' then (if is_digit prev then strip_underscores c cs else None)
      else if prev = CHR ''_'' \<and> \<not> is_digit c then None
      else map_option ((#) c) (strip_underscores c cs))"

definition lower :: "char \<Rightarrow> char" where
  "lower c = (if c \<in> set ''ABCDEFGHIJKLMNOPQRSTUVWXYZ'' then char_of (of_char c + (32::nat)) else c)"

definition split_sign :: "string \<Rightarrow> bool \<times> string" where
  "split_sign s =
     (case s of c # r \<Rightarrow> if c = CHR ''-'' then (True, r) else if c = CHR ''+'' then (False, r) else (False, s)
      | [] \<Rightarrow> (False, []))"

text \<open>The exponent part: empty, or \<^verbatim>\<open>e\<close>, an optional sign and at least one digit.\<close>

definition exponent_of :: "string \<Rightarrow> int option" where
  "exponent_of s =
     (case s of [] \<Rightarrow> Some 0
      | c # r \<Rightarrow>
          if c = CHR ''e'' \<or> c = CHR ''E'' then
            (let (eneg, ds) = split_sign r
             in if ds \<noteq> [] \<and> list_all is_digit ds
                then Some (if eneg then - int (int_of ds) else int (int_of ds)) else None)
          else None)"

definition decimal_of :: "string \<Rightarrow> rat option" where
  "decimal_of s =
     (let ip = takeWhile is_digit s; r1 = dropWhile is_digit s;
          (fp, r2) = (case r1 of c # r \<Rightarrow>
                        if c = CHR ''.'' then (takeWhile is_digit r, dropWhile is_digit r) else ([], r1)
                      | [] \<Rightarrow> ([], r1))
      in if ip = [] \<and> fp = [] then None
         else (case exponent_of r2 of None \<Rightarrow> None
               | Some e \<Rightarrow> Some (of_nat (int_of (ip @ fp)) * pow10 (e - int (length fp)))))"

definition float_of_string :: "string \<Rightarrow> exn_class + pyfloat" where
  "float_of_string s =
     (case strip_underscores (CHR 0x00) (strip s) of None \<Rightarrow> Inl ValueError
      | Some u \<Rightarrow>
          let (neg, body) = split_sign u; word = map lower body
          in if word = ''inf'' \<or> word = ''infinity'' then Inr (if neg then NegInf else PosInf)
             else if word = ''nan'' then Inr NaN
             else (case decimal_of body of None \<Rightarrow> Inl ValueError
                   | Some q \<Rightarrow> Inr (round_double neg q)))"

text \<open>
  \<^verbatim>\<open>float(v)\<close>: a float is returned as it is, a boolean is 1.0 or 0.0, an integer
  is rounded to the nearest double and raises OverflowError, with the text
  below, when that is not finite, a string is parsed, and everything else raises
  TypeError.
\<close>

definition float_overflow_msg :: string where
  "float_overflow_msg = ''int too large to convert to float''"

fun py_float :: "pyval \<Rightarrow> exn_class + pyfloat" where
  "py_float (PFloat f) = Inr f"
| "py_float (PBool b) = Inr (Finite (if b then 1 else 0))"
| "py_float (PInt n) =
     (case round_double (n < 0) (of_int \<bar>n\<bar>) of
        PosInf \<Rightarrow> Inl OverflowError
      | NegInf \<Rightarrow> Inl OverflowError
      | f \<Rightarrow> Inr f)"
| "py_float (PStr s) = float_of_string s"
| "py_float _ = Inl TypeError"

section \<open>\<^verbatim>\<open>process_pricing_data\<close>\<close>

text \<open>
  A collected record is the dict \<^verbatim>\<open>{'datetime': dt, 'price': price_float}\<close>. The
  loops carry the list \<^verbatim>\<open>pricing_data\<close> and the counter \<^verbatim>\<open>skipped_count\<close>.
\<close>

record price_record =
  datetime :: datetime
  price :: pyfloat

record pass_state =
  pricing_data :: "price_record list"
  skipped_count :: nat

text \<open>
  What \<^verbatim>\<open>print\<close> writes, one value per call. The warning of line 101 shows the
  text of an exception of the standard library; it is kept as the class of the
  exception. The dump of line 123 is kept as the value dumped. The output
  stream is taken to accept every string.
\<close>

datatype out_line =
    NoDataWarning "string list"
  | SkipWarning exn_class
  | SkipValues pyval pyval
  | ErrorProcessing string
  | DataReceived pyval

text \<open>
  Writing an integer in decimal raises ValueError, with the text below, when
  the integer has more than 4300 digits, the limit the interpreter starts with.
  The f-string of line 102 and \<^verbatim>\<open>json.dumps\<close> of line 123 write a value that
  way, a list or a dict through its items, so they raise for a value that holds
  such an integer and for no other value. The nesting of a value is taken to
  stay within the recursion limit.
\<close>

definition int_max_str_digits :: nat where
  "int_max_str_digits = 4300"

definition int_str_limit_msg :: string where
  "int_str_limit_msg =
     ''Exceeds the limit (4300 digits) for integer string conversion; use sys.set_int_max_str_digits() to increase the limit''"

definition int_str_raises :: "int \<Rightarrow> bool" where
  "int_str_raises n = (10 ^ int_max_str_digits \<le> \<bar>n\<bar>)"

fun str_raises :: "pyval \<Rightarrow> bool" where
  "str_raises (PInt n) = int_str_raises n"
| "str_raises (PList xs) = (\<exists>x\<in>set xs. str_raises x)"
| "str_raises (PDict kvs) = (\<exists>kv\<in>set kvs. str_raises (snd kv))"
| "str_raises _ = False"

text \<open>
  Lines 82 to 90: the offset is deleted, the rest is parsed, and when that raises
  ValueError the fractions are deleted and the result is parsed again. A value
  that is not a string makes \<^verbatim>\<open>re.sub\<close> raise TypeError.
\<close>

definition parse_datetime :: "pyval \<Rightarrow> exn_class + datetime" where
  "parse_datetime datetime_str =
     (case datetime_str of
        PStr s \<Rightarrow>
          (let datetime_clean = re_sub_offset s
           in case strptime datetime_clean of
                Inr dt \<Rightarrow> Inr dt
              | Inl e \<Rightarrow>
                  if e = ValueError
                  then (let datetime_clean_ms = re_sub_fraction datetime_clean
                        in strptime datetime_clean_ms)
                  else Inl e)
      | _ \<Rightarrow> Inl TypeError)"

text \<open>Lines 78 to 98: the body of the inner \<^verbatim>\<open>try\<close>.\<close>

definition parse_record :: "pyval \<Rightarrow> pyval \<Rightarrow> exn_class + price_record" where
  "parse_record datetime_str price_val =
     (case parse_datetime datetime_str of
        Inl e \<Rightarrow> Inl e
      | Inr dt \<Rightarrow>
          (case py_float price_val of
             Inl e \<Rightarrow> Inl e
           | Inr price_float \<Rightarrow> Inr \<lparr>datetime = dt, price = price_float\<rparr>))"

text \<open>
  Lines 71 to 103: one round of the inner loop. The handler of line 99 catches
  ValueError and TypeError, counts the record and prints two lines; the second
  line writes the timestamp and the price, and the ValueError it raises for an
  integer of more than 4300 digits leaves the loops, the first line printed.
  The only exception of another class is the OverflowError of \<^verbatim>\<open>float\<close> on an
  integer, which leaves the loops as well.
\<close>

definition process_detail :: "pass_state \<Rightarrow> pyval \<Rightarrow> (exn + pass_state) \<times> out_line list" where
  "process_detail st detail =
     (case detail of
        PDict kvs \<Rightarrow>
          (let datetime_str = dict_get kvs ''startIntervalTimeStamp'' PNone;
               price_val = dict_get kvs ''intervalPrice'' PNone
           in if truthy datetime_str \<and> price_val \<noteq> PNone then
                (case parse_record datetime_str price_val of
                   Inr rec \<Rightarrow> (Inr (st\<lparr>pricing_data := pricing_data st @ [rec]\<rparr>), [])
                 | Inl e \<Rightarrow>
                     if e = ValueError \<or> e = TypeError
                     then (if str_raises datetime_str \<or> str_raises price_val
                           then (Inl (ValueError, int_str_limit_msg), [SkipWarning e])
                           else (Inr (st\<lparr>skipped_count := skipped_count st + 1\<rparr>),
                                 [SkipWarning e, SkipValues datetime_str price_val]))
                     else (Inl (e, float_overflow_msg), []))
              else (Inr st, []))
      | _ \<Rightarrow> (Inr st, []))"

text \<open>A \<^verbatim>\<open>for\<close> loop: the rounds in order, until one raises.\<close>

fun for_each ::
  "('s \<Rightarrow> pyval \<Rightarrow> (exn + 's) \<times> out_line list) \<Rightarrow> 's \<Rightarrow> pyval list \<Rightarrow> (exn + 's) \<times> out_line list"
where
  "for_each body st [] = (Inr st, [])"
| "for_each body st (x # xs) =
     (case body st x of
        (Inl e, out) \<Rightarrow> (Inl e, out)
      | (Inr st', out) \<Rightarrow> (case for_each body st' xs of (r, out') \<Rightarrow> (r, out @ out')))"

text \<open>Lines 63 to 103: one round of the outer loop.\<close>

definition process_item :: "pass_state \<Rightarrow> pyval \<Rightarrow> (exn + pass_state) \<times> out_line list" where
  "process_item st data_item =
     (case data_item of
        PDict kvs \<Rightarrow>
          (let price_details = dict_get kvs ''priceDetails'' (PList [])
           in if \<not> truthy price_details then (Inr st, [])
              else (case py_iter price_details of
                      Inl e \<Rightarrow> (Inl e, [])
                    | Inr details \<Rightarrow> for_each process_detail st details))
      | _ \<Rightarrow> (Inr st, []))"

text \<open>\<^verbatim>\<open>str(n)\<close> for the counter.\<close>

fun str_nat :: "nat \<Rightarrow> string" where
  "str_nat n =
     (if n < 10 then [char_of (48 + n)] else str_nat (n div 10) @ [char_of (48 + n mod 10)])"

declare str_nat.simps [simp del]

definition no_data_msg :: string where
  "no_data_msg =
     ''No data found in API response. The API may not have data for the selected date range.''"

definition error_msg :: "nat \<Rightarrow> string" where
  "error_msg skipped =
     ''No valid pricing data records found after processing.'' @
     (if 0 < skipped then '' Skipped '' @ str_nat skipped @ '' invalid records.'' else []) @
     '' This may indicate: (1) No data available for the selected date range, (2) API response structure changed, or (3) All records had parsing errors.''"

text \<open>
  A DataFrame is the list of its rows in their order; the index labels are left
  out. \<^verbatim>\<open>sort_values('datetime')\<close> puts the rows in ascending order of the
  datetime. The order it gives to rows of one datetime is not fixed by pandas;
  here they keep their order, and no theorem below depends on it.
\<close>

definition sort_values :: "price_record list \<Rightarrow> price_record list" where
  "sort_values rows = sort_key (\<lambda>r. dt_key (datetime r)) rows"

text \<open>Lines 47 to 119: the body of the outer \<^verbatim>\<open>try\<close>.\<close>

definition try_block :: "pyval \<Rightarrow> (exn + price_record list) \<times> out_line list" where
  "try_block data =
     (case data of
        PDict kvs \<Rightarrow>
          (let data_list = dict_get kvs ''data'' (PList [])
           in if \<not> truthy data_list
              then (Inl (ValueError, no_data_msg), [NoDataWarning (map fst kvs)])
              else (case py_iter data_list of
                      Inl e \<Rightarrow> (Inl e, [])
                    | Inr items \<Rightarrow>
                        (case for_each process_item \<lparr>pricing_data = [], skipped_count = 0\<rparr> items of
                           (Inl e, out) \<Rightarrow> (Inl e, out)
                         | (Inr st, out) \<Rightarrow>
                             if pricing_data st = []
                             then (Inl (ValueError, error_msg (skipped_count st)), out)
                             else (Inr (sort_values (pricing_data st)), out))))
      | _ \<Rightarrow> (Inl (ValueError, ''Expected dict but got '' @ type_name data), []))"

text \<open>
  Lines 121 to 124: every exception of the body is printed, the data are dumped
  and printed, and an \<^verbatim>\<open>Exception\<close> is raised with the text of the first behind
  a fixed prefix. When the data hold an integer of more than 4300 digits, the
  dump of line 123 raises ValueError, nothing more is printed, and the call ends
  with that ValueError.
\<close>

definition process_pricing_data :: "pyval \<Rightarrow> (exn + price_record list) \<times> out_line list" where
  "process_pricing_data data =
     (case try_block data of
        (Inr df, out) \<Rightarrow> (Inr df, out)
      | (Inl e, out) \<Rightarrow>
          if str_raises data
          then (Inl (ValueError, int_str_limit_msg), out @ [ErrorProcessing (snd e)])
          else (Inl (Exception, ''Failed to process data: '' @ snd e),
                out @ [ErrorProcessing (snd e), DataReceived data]))"

section \<open>\<^verbatim>\<open>fetch_energy_data\<close>\<close>

text \<open>
  The \<^verbatim>\<open>requests\<close> library is a parameter: \<open>get\<close> maps the URL and the query
  parameters to a response, or to the text of the \<^verbatim>\<open>RequestException\<close> it raises.
  A response says what \<^verbatim>\<open>raise_for_status()\<close> raises, if anything, and what
  \<^verbatim>\<open>json()\<close> returns or raises; the errors of both are \<^verbatim>\<open>RequestException\<close>s
  (\<^verbatim>\<open>HTTPError\<close> and the \<^verbatim>\<open>JSONDecodeError\<close> of \<^verbatim>\<open>requests\<close>). The function
  returns its result and the requests it has issued.
\<close>

record response =
  raise_for_status :: "string option"
  json :: "string + pyval"

type_synonym request = "string \<times> (string \<times> string) list"

definition base_url :: string where
  "base_url = ''https://pge-pe-api.gridx.com/v1/getPricing''"

definition params :: "string \<Rightarrow> string \<Rightarrow> (string \<times> string) list" where
  "params start_date end_date =
     [(''utility'', ''PGE''), (''market'', ''DAM''), (''startdate'', start_date),
      (''enddate'', end_date), (''ratename'', ''EV2A''),
      (''representativeCircuitId'', ''024040403''), (''program'', ''CalFUSE'')]"

definition fetch_energy_data ::
  "(string \<Rightarrow> (string \<times> string) list \<Rightarrow> string + response) \<Rightarrow> string \<Rightarrow> string \<Rightarrow>
     (exn + pyval) \<times> request list"
where
  "fetch_energy_data get start_date end_date =
     (let issued = [(base_url, params start_date end_date)]
      in case get base_url (params start_date end_date) of
           Inl e \<Rightarrow> (Inl (Exception, ''Failed to fetch data: '' @ e), issued)
         | Inr response \<Rightarrow>
             (case raise_for_status response of
                Some e \<Rightarrow> (Inl (Exception, ''Failed to fetch data: '' @ e), issued)
              | None \<Rightarrow>
                  (case json response of
                     Inl e \<Rightarrow> (Inl (Exception, ''Failed to fetch data: '' @ e), issued)
                   | Inr body \<Rightarrow> (Inr body, issued))))"

section \<open>The notions of the specification\<close>

text \<open>
  The specification names four kinds of failure. The code raises the one class
  \<^verbatim>\<open>Exception\<close>; what a caller can tell apart is the text, which begins with the
  literal of line 34 or of line 124, followed for the latter by the literal of
  line 53, 59 or 107.
\<close>

datatype failure_kind = FetchError | MalformedResponseError | NoDataError | EmptyResultError

definition spec_failure_kind :: "exn \<Rightarrow> failure_kind option" where
  "spec_failure_kind e =
     (if fst e \<noteq> Exception then None
      else if prefix ''Failed to fetch data: '' (snd e) then Some FetchError
      else if prefix ''Failed to process data: Expected dict but got '' (snd e)
        then Some MalformedResponseError
      else if snd e = ''Failed to process data: '' @ no_data_msg then Some NoDataError
      else if prefix ''Failed to process data: No valid pricing data records found after processing.'' (snd e)
        then Some EmptyResultError
      else None)"

text \<open>
  The clean form \<^verbatim>\<open>YYYY-MM-DDTHH:MM:SS\<close>: nineteen characters, digits in the
  six fields and the separators between them.
\<close>

fun clean_form :: "string \<Rightarrow> bool" where
  "clean_form [y1, y2, y3, y4, a, m1, m2, b, d1, d2, t, h1, h2, c, n1, n2, e, s1, s2] =
     (list_all is_digit [y1, y2, y3, y4, m1, m2, d1, d2, h1, h2, n1, n2, s1, s2] \<and>
      a = CHR ''-'' \<and> b = CHR ''-'' \<and> t = CHR ''T'' \<and> c = CHR '':'' \<and> e = CHR '':'')"
| "clean_form _ = False"



text \<open>
  The two fields of a detail record that is a mapping. A record is valid when
  its timestamp parses and its price converts; it is counted as invalid when the
  test of line 77 lets it through and the parse or the conversion raises
  ValueError or TypeError; it is fatal, its round raises, when the conversion
  raises OverflowError or when it is counted as invalid and the second line of
  the warning cannot be written.
\<close>

definition detail_fields :: "pyval \<Rightarrow> (pyval \<times> pyval) option" where
  "detail_fields detail =
     (case detail of
        PDict kvs \<Rightarrow>
          Some (dict_get kvs ''startIntervalTimeStamp'' PNone, dict_get kvs ''intervalPrice'' PNone)
      | _ \<Rightarrow> None)"

definition valid_record :: "pyval \<Rightarrow> price_record option" where
  "valid_record detail =
     (case detail_fields detail of
        None \<Rightarrow> None
      | Some (t, p) \<Rightarrow> (case parse_record t p of Inr r \<Rightarrow> Some r | Inl _ \<Rightarrow> None))"

definition invalid_record :: "pyval \<Rightarrow> bool" where
  "invalid_record detail =
     (case detail_fields detail of
        None \<Rightarrow> False
      | Some (t, p) \<Rightarrow>
          truthy t \<and> p \<noteq> PNone \<and>
          (parse_record t p = Inl ValueError \<or> parse_record t p = Inl TypeError))"

definition fatal_record :: "pyval \<Rightarrow> bool" where
  "fatal_record detail =
     (case detail_fields detail of
        None \<Rightarrow> False
      | Some (t, p) \<Rightarrow>
          parse_record t p = Inl OverflowError \<or>
          invalid_record detail \<and> (str_raises t \<or> str_raises p))"

text \<open>The two lines printed for a record that is counted as invalid and is not fatal.\<close>

definition skip_lines :: "pyval \<Rightarrow> out_line list" where
  "skip_lines detail =
     (case detail_fields detail of
        None \<Rightarrow> []
      | Some (t, p) \<Rightarrow>
          if invalid_record detail
          then (case parse_record t p of Inl e \<Rightarrow> [SkipWarning e, SkipValues t p] | Inr _ \<Rightarrow> [])
          else [])"

text \<open>
  The detail records of one entry of \<^verbatim>\<open>data\<close> (lines 63 to 70), the entries of
  a response (lines 52 to 62), and the detail records of a response. A response
  runs through when both loops can iterate and no record is fatal.
\<close>

definition item_details :: "pyval \<Rightarrow> exn + pyval list" where
  "item_details data_item =
     (case data_item of
        PDict kvs \<Rightarrow>
          (let price_details = dict_get kvs ''priceDetails'' (PList [])
           in if truthy price_details then py_iter price_details else Inr [])
      | _ \<Rightarrow> Inr [])"

definition data_items :: "pyval \<Rightarrow> pyval list option" where
  "data_items data =
     (case data of
        PDict kvs \<Rightarrow>
          (let data_list = dict_get kvs ''data'' (PList [])
           in if truthy data_list
              then (case py_iter data_list of Inr items \<Rightarrow> Some items | Inl _ \<Rightarrow> None)
              else None)
      | _ \<Rightarrow> None)"

definition visited_details :: "pyval list \<Rightarrow> pyval list" where
  "visited_details items =
     concat (map (\<lambda>i. case item_details i of Inr ds \<Rightarrow> ds | Inl _ \<Rightarrow> []) items)"

definition details_of :: "pyval \<Rightarrow> pyval list" where
  "details_of data = (case data_items data of Some items \<Rightarrow> visited_details items | None \<Rightarrow> [])"

definition runs_through :: "pyval \<Rightarrow> bool" where
  "runs_through data =
     (case data_items data of
        None \<Rightarrow> False
      | Some items \<Rightarrow>
          list_all (\<lambda>i. case item_details i of Inr _ \<Rightarrow> True | Inl _ \<Rightarrow> False) items \<and>
          list_all (\<lambda>d. \<not> fatal_record d) (visited_details items))"

definition valid_records :: "pyval list \<Rightarrow> price_record list" where
  "valid_records details = List.map_filter valid_record details"

definition invalid_count :: "pyval list \<Rightarrow> nat" where
  "invalid_count details = length (filter invalid_record details)"

section \<open>The fetcher\<close>

text \<open>
  C8. When the request fails, when the status is an error, or when the body is
  not JSON, \<^verbatim>\<open>fetch_energy_data\<close> raises an exception whose text is
  \<^verbatim>\<open>Failed to fetch data:\<close> followed by the text of the cause, and it has
  issued exactly one request.
\<close>

theorem fetch_failure_single_request:
  assumes "get base_url (params start_date end_date) = Inl cause \<or>
           (\<exists>resp. get base_url (params start_date end_date) = Inr resp \<and>
              (raise_for_status resp = Some cause \<or>
               raise_for_status resp = None \<and> json resp = Inl cause))"
  shows "fetch_energy_data get start_date end_date =
           (Inl (Exception, ''Failed to fetch data: '' @ cause),
            [(base_url, params start_date end_date)])"
  using assms by (auto simp: fetch_energy_data_def)

theorem fetch_failure_single_request_witness:
  "fetch_energy_data
     (\<lambda>url ps. Inr \<lparr>raise_for_status = Some ''404 Client Error'', json = Inl ''no JSON''\<rparr>)
     ''20240101'' ''20240102'' =
   (Inl (Exception, ''Failed to fetch data: 404 Client Error''),
    [(base_url, params ''20240101'' ''20240102'')])"
  using fetch_failure_single_request
    [of "\<lambda>url ps. Inr \<lparr>raise_for_status = Some ''404 Client Error'', json = Inl ''no JSON''\<rparr>"
        "''20240101''" "''20240102''" "''404 Client Error''"]
  by simp

section \<open>Detail records without a timestamp or a price\<close>

text \<open>
  C6. A detail record that is a mapping and has no \<^verbatim>\<open>startIntervalTimeStamp\<close>, no
  \<^verbatim>\<open>intervalPrice\<close> or a null price is passed over: nothing is raised, nothing
  is printed, the counter and the list stay as they are, and the loop goes on
  with the next record.
\<close>

theorem absent_fields_skipped_silently:
  assumes "map_of kvs ''startIntervalTimeStamp'' = None \<or> map_of kvs ''intervalPrice'' = None \<or>
           map_of kvs ''intervalPrice'' = Some PNone"
  shows "process_detail st (PDict kvs) = (Inr st, []) \<and>
         for_each process_detail st (PDict kvs # rest) = for_each process_detail st rest"
proof -
  have "process_detail st (PDict kvs) = (Inr st, [])"
    using assms by (auto simp: process_detail_def dict_get_def)
  then show ?thesis by (simp split: prod.splits)
qed

theorem absent_fields_skipped_silently_witness:
  "process_detail \<lparr>pricing_data = [], skipped_count = 0\<rparr>
     (PDict [(''startIntervalTimeStamp'', PStr ''2024-01-01T00:00:00'')]) =
   (Inr \<lparr>pricing_data = [], skipped_count = 0\<rparr>, [])"
  using absent_fields_skipped_silently
    [of "[(''startIntervalTimeStamp'', PStr ''2024-01-01T00:00:00'')]"
        "\<lparr>pricing_data = [], skipped_count = 0\<rparr>" "[]"]
  by simp

section \<open>The cleanup of a clean timestamp\<close>

lemma digit_not_sep: "is_digit c \<Longrightarrow> c \<noteq> CHR ''.'' \<and> \<not> is_sign c"
  by (auto simp: is_digit_def is_sign_def)

lemma sep_not_digit:
  "\<not> is_digit CHR ''-''" "\<not> is_digit CHR ''T''" "\<not> is_digit CHR '':''"
  by (simp_all add: is_digit_def)

text \<open>
  C9. A string that already has the form \<^verbatim>\<open>YYYY-MM-DDTHH:MM:SS\<close> is left as it
  is by the deletion of the offset, by the deletion of the fractions, and by
  the two in a row.
\<close>

theorem clean_form_unchanged:
  assumes "clean_form s"
  shows "re_sub_offset s = s \<and> re_sub_fraction s = s \<and> re_sub_fraction (re_sub_offset s) = s"
proof -
  from assms obtain y1 y2 y3 y4 m1 m2 d1 d2 h1 h2 n1 n2 s1 s2 where
    s: "s = [y1, y2, y3, y4, CHR ''-'', m1, m2, CHR ''-'', d1, d2, CHR ''T'', h1, h2, CHR '':'',
             n1, n2, CHR '':'', s1, s2]"
    and dg: "is_digit y1" "is_digit y2" "is_digit y3" "is_digit y4" "is_digit m1" "is_digit m2"
      "is_digit d1" "is_digit d2" "is_digit h1" "is_digit h2" "is_digit n1" "is_digit n2"
      "is_digit s1" "is_digit s2"
    by (elim clean_form.elims(2)) simp
  note nd = dg [THEN digit_not_sep, THEN conjunct1] and ns = dg [THEN digit_not_sep, THEN conjunct2]
  have 1: "re_sub_offset s = s"
    unfolding s
    by (simp add: ns sep_not_digit is_sign_def [of "CHR ''T''"] is_sign_def [of "CHR '':''"])
  have 2: "re_sub_fraction s = s"
    unfolding s by (simp add: nd)
  from 1 2 show ?thesis by simp
qed

theorem clean_form_unchanged_witness:
  "clean_form ''2024-01-01T00:00:00'' \<and>
   re_sub_offset ''2024-01-01T00:00:00'' = ''2024-01-01T00:00:00'' \<and>
   re_sub_fraction ''2024-01-01T00:00:00'' = ''2024-01-01T00:00:00''"
proof -
  have c: "clean_form ''2024-01-01T00:00:00''"
    by (simp add: is_digit_def)
  from clean_form_unchanged [OF c] c show ?thesis by simp
qed

section \<open>What a run of the loops collects\<close>

lemma strptime_error: "strptime s = Inl e \<Longrightarrow> e = ValueError"
  by (auto simp: strptime_def split: list.splits prod.splits if_splits)

lemma strptime_Nil: "strptime [] = Inl ValueError"
  by (simp add: strptime_def format_regex_def rx_Y_def)

lemma parse_datetime_error: "parse_datetime v = Inl e \<Longrightarrow> e = ValueError \<or> e = TypeError"
  by (auto simp: parse_datetime_def Let_def split: pyval.splits sum.splits if_splits
           dest: strptime_error)

lemma parse_datetime_truthy: "parse_datetime v = Inr dt \<Longrightarrow> truthy v"
  by (cases v) (auto simp: parse_datetime_def strptime_Nil)

lemma float_of_string_error: "float_of_string s = Inl e \<Longrightarrow> e = ValueError"
  by (auto simp: float_of_string_def Let_def split: option.splits prod.splits if_splits)

lemma py_float_error:
  "py_float p = Inl e \<Longrightarrow> e = ValueError \<or> e = TypeError \<or> e = OverflowError"
  by (cases p) (auto dest: float_of_string_error split: pyfloat.splits)

lemma py_float_not_None: "py_float p = Inr f \<Longrightarrow> p \<noteq> PNone"
  by auto

lemma parse_record_error:
  "parse_record t p = Inl e \<Longrightarrow> e = ValueError \<or> e = TypeError \<or> e = OverflowError"
  by (auto simp: parse_record_def split: sum.splits dest: parse_datetime_error py_float_error)

lemma parse_record_guard: "parse_record t p = Inr r \<Longrightarrow> truthy t \<and> p \<noteq> PNone"
  by (auto simp: parse_record_def split: sum.splits dest: parse_datetime_truthy)

lemma parse_record_overflow_guard:
  "parse_record t p = Inl OverflowError \<Longrightarrow> truthy t \<and> p \<noteq> PNone"
  by (auto simp: parse_record_def split: sum.splits dest: parse_datetime_truthy parse_datetime_error)

text \<open>One round of the inner loop, by the kind of the record.\<close>

lemma process_detail_overflow:
  "detail_fields d = Some (t, p) \<Longrightarrow> parse_record t p = Inl OverflowError \<Longrightarrow>
   process_detail st d = (Inl (OverflowError, float_overflow_msg), [])"
  by (cases d)
     (auto simp: detail_fields_def process_detail_def Let_def
           dest: parse_record_overflow_guard)

lemma process_detail_valid:
  "valid_record d = Some r \<Longrightarrow>
   process_detail st d = (Inr (st\<lparr>pricing_data := pricing_data st @ [r]\<rparr>), [])"
  by (cases d)
     (auto simp: valid_record_def detail_fields_def process_detail_def Let_def
           split: sum.splits dest: parse_record_guard)

lemma process_detail_invalid:
  "invalid_record d \<Longrightarrow> \<not> fatal_record d \<Longrightarrow>
   process_detail st d = (Inr (st\<lparr>skipped_count := skipped_count st + 1\<rparr>), skip_lines d)"
  by (cases d)
     (auto simp: invalid_record_def fatal_record_def skip_lines_def detail_fields_def
                 process_detail_def Let_def)

lemma process_detail_absent:
  "valid_record d = None \<Longrightarrow> \<not> invalid_record d \<Longrightarrow> \<not> fatal_record d \<Longrightarrow>
   process_detail st d = (Inr st, [])"
  by (cases d)
     (auto simp: valid_record_def invalid_record_def fatal_record_def detail_fields_def
                 process_detail_def Let_def
           split: sum.splits dest: parse_record_error)

lemma valid_not_invalid: "valid_record d = Some r \<Longrightarrow> \<not> invalid_record d \<and> \<not> fatal_record d"
  by (auto simp: valid_record_def invalid_record_def fatal_record_def
           split: option.splits sum.splits)

lemma invalid_not_valid: "invalid_record d \<Longrightarrow> valid_record d = None"
  by (auto simp: valid_record_def invalid_record_def split: option.splits sum.splits)

lemma skip_lines_not_invalid: "\<not> invalid_record d \<Longrightarrow> skip_lines d = []"
  by (auto simp: skip_lines_def split: option.splits)

lemma process_detail_run:
  assumes "\<not> fatal_record d"
  shows "process_detail st d =
           (Inr \<lparr>pricing_data = pricing_data st @ valid_records [d],
                 skipped_count = skipped_count st + invalid_count [d]\<rparr>, skip_lines d)"
proof (cases "valid_record d")
  case (Some r)
  with valid_not_invalid [OF Some] process_detail_valid [OF Some, of st] show ?thesis
    by (simp add: valid_records_def invalid_count_def List.map_filter_simps skip_lines_not_invalid)
next
  case None
  show ?thesis
  proof (cases "invalid_record d")
    case True
    with None process_detail_invalid [OF True assms, of st] show ?thesis
      by (simp add: valid_records_def invalid_count_def List.map_filter_simps)
  next
    case False
    with None assms process_detail_absent [of d st] show ?thesis
      by (simp add: valid_records_def invalid_count_def List.map_filter_simps
                    skip_lines_not_invalid)
  qed
qed

lemma valid_records_Cons: "valid_records (d # ds) = valid_records [d] @ valid_records ds"
  by (simp add: valid_records_def List.map_filter_simps split: option.splits)

lemma valid_records_append: "valid_records (xs @ ys) = valid_records xs @ valid_records ys"
  by (simp add: valid_records_def List.map_filter_def)

lemma invalid_count_append: "invalid_count (xs @ ys) = invalid_count xs + invalid_count ys"
  by (simp add: invalid_count_def)

lemma invalid_count_Cons: "invalid_count (d # ds) = invalid_count [d] + invalid_count ds"
  by (simp add: invalid_count_def)

lemma for_each_detail_run:
  "\<forall>d\<in>set ds. \<not> fatal_record d \<Longrightarrow>
   for_each process_detail st ds =
     (Inr \<lparr>pricing_data = pricing_data st @ valid_records ds,
           skipped_count = skipped_count st + invalid_count ds\<rparr>,
      concat (map skip_lines ds))"
proof (induction ds arbitrary: st)
  case Nil
  then show ?case by (simp add: valid_records_def invalid_count_def List.map_filter_simps)
next
  case (Cons d ds)
  then have d: "\<not> fatal_record d" and ds: "\<forall>d\<in>set ds. \<not> fatal_record d"
    by simp_all
  show ?case
    by (simp add: process_detail_run [OF d] Cons.IH [OF ds]
                  valid_records_Cons [of d ds] invalid_count_Cons [of d ds])
qed

text \<open>One round of the outer loop, and the loop.\<close>

lemma process_item_details:
  "process_item st i =
     (case item_details i of Inl e \<Rightarrow> (Inl e, []) | Inr ds \<Rightarrow> for_each process_detail st ds)"
  by (cases i) (auto simp: process_item_def item_details_def Let_def split: sum.splits)

lemma visited_details_Cons:
  "item_details i = Inr ds \<Longrightarrow> visited_details (i # items) = ds @ visited_details items"
  by (simp add: visited_details_def)

lemma for_each_item_run:
  assumes "list_all (\<lambda>i. case item_details i of Inr _ \<Rightarrow> True | Inl _ \<Rightarrow> False) items"
    and "list_all (\<lambda>d. \<not> fatal_record d) (visited_details items)"
  shows "for_each process_item st items =
     (Inr \<lparr>pricing_data = pricing_data st @ valid_records (visited_details items),
           skipped_count = skipped_count st + invalid_count (visited_details items)\<rparr>,
      concat (map skip_lines (visited_details items)))"
  using assms
proof (induction items arbitrary: st)
  case Nil
  then show ?case
    by (simp add: visited_details_def valid_records_def invalid_count_def List.map_filter_simps)
next
  case (Cons i items)
  from Cons.prems(1) obtain ds where i: "item_details i = Inr ds"
    by (auto split: sum.splits)
  from Cons.prems(1) have rest: "list_all (\<lambda>i. case item_details i of Inr _ \<Rightarrow> True | Inl _ \<Rightarrow> False) items"
    by simp
  from Cons.prems(2) have nf: "\<forall>d\<in>set ds. \<not> fatal_record d"
    and nfr: "list_all (\<lambda>d. \<not> fatal_record d) (visited_details items)"
    by (simp_all add: visited_details_Cons [OF i] list_all_iff)
  have step: "process_item st i =
      (Inr \<lparr>pricing_data = pricing_data st @ valid_records ds,
            skipped_count = skipped_count st + invalid_count ds\<rparr>, concat (map skip_lines ds))"
    by (simp add: process_item_details i for_each_detail_run [OF nf])
  show ?case
    by (simp add: step Cons.IH [OF rest nfr] visited_details_Cons [OF i]
                  valid_records_append invalid_count_append)
qed

text \<open>The whole pass on a response that runs through.\<close>

lemma try_block_run:
  assumes "runs_through data"
  shows "try_block data =
     (if valid_records (details_of data) = []
      then Inl (ValueError, error_msg (invalid_count (details_of data)))
      else Inr (sort_values (valid_records (details_of data))),
      concat (map skip_lines (details_of data)))"
proof -
  from assms obtain items where items: "data_items data = Some items"
    by (auto simp: runs_through_def split: option.splits)
  from assms items
  have a: "list_all (\<lambda>i. case item_details i of Inr _ \<Rightarrow> True | Inl _ \<Rightarrow> False) items"
    and b: "list_all (\<lambda>d. \<not> fatal_record d) (visited_details items)"
    by (simp_all add: runs_through_def)
  from items obtain kvs where data: "data = PDict kvs"
    and t: "truthy (dict_get kvs ''data'' (PList []))"
    and it: "py_iter (dict_get kvs ''data'' (PList [])) = Inr items"
    by (cases data) (auto simp: data_items_def Let_def split: if_splits sum.splits)
  show ?thesis
    by (simp add: data try_block_def Let_def t it for_each_item_run [OF a b] details_of_def
                  items [unfolded data])
qed

lemma process_pricing_data_run:
  assumes "runs_through data"
  shows "process_pricing_data data =
     (if valid_records (details_of data) = []
      then (if str_raises data
            then (Inl (ValueError, int_str_limit_msg),
                  concat (map skip_lines (details_of data)) @
                  [ErrorProcessing (error_msg (invalid_count (details_of data)))])
            else (Inl (Exception, ''Failed to process data: '' @ error_msg (invalid_count (details_of data))),
                  concat (map skip_lines (details_of data)) @
                  [ErrorProcessing (error_msg (invalid_count (details_of data))), DataReceived data]))
      else (Inr (sort_values (valid_records (details_of data))),
            concat (map skip_lines (details_of data))))"
  by (simp add: process_pricing_data_def try_block_run [OF assms])

lemma sort_values_sorted: "sorted (map (\<lambda>r. dt_key (datetime r)) (sort_values rows))"
  by (simp add: sort_values_def)

lemma sort_values_mset: "mset (sort_values rows) = mset rows"
  by (simp add: sort_values_def)

lemma sort_values_set: "set (sort_values rows) = set rows"
  by (simp add: sort_values_def)

lemma skip_lines_count: "length (concat (map skip_lines ds)) = 2 * invalid_count ds"
proof (induction ds)
  case Nil
  then show ?case by (simp add: invalid_count_def)
next
  case (Cons d ds)
  have "length (skip_lines d) = 2 * invalid_count [d]"
    by (auto simp: skip_lines_def invalid_count_def invalid_record_def split: option.splits sum.splits)
  with Cons show ?case
    by (simp add: invalid_count_Cons [of d ds])
qed

text \<open>
  A response without a fatal record returns exactly its valid records, in order
  of time, and prints two lines for each record it counts as invalid.
\<close>

lemma process_pricing_data_valid_sorted:
  assumes "runs_through data" and "valid_records (details_of data) \<noteq> []"
  shows "\<exists>df out. process_pricing_data data = (Inr df, out) \<and>
           mset df = mset (valid_records (details_of data)) \<and>
           sorted (map (\<lambda>r. dt_key (datetime r)) df) \<and>
           out = concat (map skip_lines (details_of data)) \<and>
           length out = 2 * invalid_count (details_of data)"
  using assms
  by (simp add: process_pricing_data_run sort_values_sorted sort_values_mset skip_lines_count)

text \<open>The example of the specification: two records, the first with a price in a string.\<close>

lemma round_trip_example:
  "process_pricing_data
     (PDict [(''data'', PList [PDict [(''priceDetails'',
        PList [PDict [(''startIntervalTimeStamp'', PStr ''2024-01-01T00:00:00-0800''),
                      (''intervalPrice'', PStr ''12.5'')],
               PDict [(''startIntervalTimeStamp'', PStr ''2024-01-01T01:00:00-0800''),
                      (''intervalPrice'', PFloat (Finite 13))]])]])]) =
   (Inr [\<lparr>datetime = \<lparr>year = 2024, month = 1, day = 1, hour = 0, minute = 0, second = 0\<rparr>,
          price = Finite (25 / 2)\<rparr>,
         \<lparr>datetime = \<lparr>year = 2024, month = 1, day = 1, hour = 1, minute = 0, second = 0\<rparr>,
          price = Finite 13\<rparr>], [])"
  by code_simp

text \<open>Where a failure of the pass can come from.\<close>

lemma for_each_failure:
  "for_each body st xs = (Inl e, out) \<Longrightarrow> \<exists>st' x out'. x \<in> set xs \<and> body st' x = (Inl e, out')"
proof (induction xs arbitrary: st out)
  case Nil
  then show ?case by simp
next
  case (Cons x xs)
  show ?case
  proof (cases "body st x")
    case (Pair r o1)
    show ?thesis
    proof (cases r)
      case (Inl e')
      with Pair Cons.prems show ?thesis by auto
    next
      case (Inr st')
      with Pair Cons.prems obtain o2 where "for_each body st' xs = (Inl e, o2)"
        by (auto split: prod.splits)
      from Cons.IH [OF this] show ?thesis by auto
    qed
  qed
qed

lemma process_detail_failure:
  "process_detail st d = (Inl e, out) \<Longrightarrow>
   (e = (OverflowError, float_overflow_msg) \<or> e = (ValueError, int_str_limit_msg)) \<and>
   fatal_record d"
  by (cases d)
     (auto simp: process_detail_def fatal_record_def invalid_record_def detail_fields_def Let_def
           split: if_splits sum.splits dest: parse_record_error)

lemma py_iter_failure:
  "py_iter v = Inl e \<Longrightarrow>
   e = (TypeError, not_iterable_msg (type_name v)) \<and>
   type_name v \<in> {''NoneType'', ''bool'', ''int'', ''float''}"
  by (cases v) auto

lemma process_item_failure:
  assumes "process_item st i = (Inl e, out)"
  shows "(e = (OverflowError, float_overflow_msg) \<or> e = (ValueError, int_str_limit_msg)) \<and>
           (\<exists>ds d. item_details i = Inr ds \<and> d \<in> set ds \<and> fatal_record d) \<or>
         (\<exists>t\<in>{''NoneType'', ''bool'', ''int'', ''float''}.
            e = (TypeError, not_iterable_msg t))"
proof (cases "item_details i")
  case (Inl e')
  with assms have "e' = e" by (simp add: process_item_details)
  with Inl obtain v where "py_iter v = Inl e"
    by (cases i) (auto simp: item_details_def Let_def split: if_splits)
  from py_iter_failure [OF this] show ?thesis by auto
next
  case (Inr ds)
  with assms have "for_each process_detail st ds = (Inl e, out)"
    by (simp add: process_item_details)
  from for_each_failure [OF this] obtain st' d out' where
    d: "d \<in> set ds" "process_detail st' d = (Inl e, out')"
    by blast
  from process_detail_failure [OF d(2)] d(1) Inr show ?thesis
    by blast
qed

lemma visited_details_member:
  "i \<in> set items \<Longrightarrow> item_details i = Inr ds \<Longrightarrow> set ds \<subseteq> set (visited_details items)"
  by (force simp: visited_details_def)

lemma try_block_failure:
  assumes "try_block data = (Inl e, out)"
  shows "e = (ValueError, ''Expected dict but got '' @ type_name data) \<and> \<not> is_dict data \<or>
         e = (ValueError, no_data_msg) \<or>
         (\<exists>n. e = (ValueError, error_msg n)) \<or>
         (e = (OverflowError, float_overflow_msg) \<or> e = (ValueError, int_str_limit_msg)) \<and>
           (\<exists>d\<in>set (details_of data). fatal_record d) \<or>
         (\<exists>t\<in>{''NoneType'', ''bool'', ''int'', ''float''}.
            e = (TypeError, not_iterable_msg t))"
proof (cases data)
  case (PDict kvs)
  let ?dl = "dict_get kvs ''data'' (PList [])"
  show ?thesis
  proof (cases "truthy ?dl")
    case False
    with assms PDict show ?thesis by (simp add: try_block_def)
  next
    case True
    show ?thesis
    proof (cases "py_iter ?dl")
      case (Inl e')
      with assms PDict True have "e' = e" by (simp add: try_block_def)
      with py_iter_failure [OF Inl] show ?thesis by auto
    next
      case (Inr items)
      with True PDict have dd: "details_of data = visited_details items"
        by (simp add: details_of_def data_items_def)
      show ?thesis
      proof (cases "for_each process_item \<lparr>pricing_data = [], skipped_count = 0\<rparr> items")
        case (Pair r o1)
        show ?thesis
        proof (cases r)
          case (Inl e')
          with assms PDict True Inr Pair have "e' = e" by (simp add: try_block_def)
          with Pair Inl
          have "for_each process_item \<lparr>pricing_data = [], skipped_count = 0\<rparr> items = (Inl e, o1)"
            by simp
          from for_each_failure [OF this]
          obtain st' x out' where x: "x \<in> set items" "process_item st' x = (Inl e, out')" by blast
          from process_item_failure [OF x(2)] show ?thesis
          proof
            assume f: "(e = (OverflowError, float_overflow_msg) \<or> e = (ValueError, int_str_limit_msg)) \<and>
              (\<exists>ds d. item_details x = Inr ds \<and> d \<in> set ds \<and> fatal_record d)"
            then obtain ds d where "item_details x = Inr ds" "d \<in> set ds" "fatal_record d"
              by blast
            with visited_details_member [OF x(1)] dd
            have "\<exists>d\<in>set (details_of data). fatal_record d"
              by (metis subsetD)
            with f show ?thesis by (simp only: simp_thms)
          next
            assume "\<exists>t\<in>{''NoneType'', ''bool'', ''int'', ''float''}.
              e = (TypeError, not_iterable_msg t)"
            then show ?thesis by (simp only: simp_thms)
          qed
        next
          case (Inr st')
          with assms PDict True \<open>py_iter ?dl = Inr items\<close> Pair show ?thesis
            by (auto simp: try_block_def split: if_splits)
        qed
      qed
    qed
  qed
qed (use assms in \<open>auto simp: try_block_def\<close>)

text \<open>An integer from \<open>2 ^ 1024\<close> on is too large for a float.\<close>

lemma round_half_even_ge_floor: "\<lfloor>x\<rfloor> \<le> round_half_even x"
  by (simp add: round_half_even_def Let_def)

lemma bitlen_one: "bitlen 1 = 1"
  by (simp add: bitlen_alt_def)

lemma floor_log2_of_int:
  assumes "0 < a"
  shows "floor_log2 (of_int a) = bitlen a - 1"
proof -
  from bitlen_bounds [OF assms] have lo: "2 ^ nat (bitlen a - 1) \<le> a" by simp
  from assms have "1 \<le> bitlen a"
    by (simp add: bitlen_alt_def)
  then have "pow2 (bitlen a - 1) = of_int (2 ^ nat (bitlen a - 1))"
    by (simp add: pow2_def)
  also have "\<dots> \<le> of_int a"
    using lo by (simp only: of_int_le_iff)
  finally show ?thesis
    by (simp add: floor_log2_def bitlen_one)
qed

lemma py_float_int_overflow:
  assumes "2 ^ 1024 \<le> \<bar>n\<bar>"
  shows "py_float (PInt n) = Inl OverflowError"
proof -
  define a where "a = \<bar>n\<bar>"
  define L where "L = bitlen a - 1"
  have a: "2 ^ 1024 \<le> a" "0 < a"
    using assms by (simp_all add: a_def)
  have hi: "a < 2 ^ nat (bitlen a)" and lo: "2 ^ nat L \<le> a"
    using bitlen_bounds [OF a(2)] by (simp_all add: L_def)
  have L: "1024 \<le> L"
  proof (rule ccontr)
    assume "\<not> 1024 \<le> L"
    then have "nat (bitlen a) \<le> 1024" by (simp add: L_def)
    then have "(2::int) ^ nat (bitlen a) \<le> 2 ^ 1024"
      by (intro power_increasing) simp_all
    with hi a(1) show False by simp
  qed
  have fl: "floor_log2 (of_int a) = L"
    by (simp add: floor_log2_of_int [OF a(2)] L_def)
  define e where "e = max (L - 52) (- 1074)"
  have e: "e = L - 52" using L by (simp add: e_def)
  have pe: "pow2 e = 2 ^ nat (L - 52)" using L by (simp add: e pow2_def)
  have split: "(2::rat) ^ nat L = 2 ^ 52 * 2 ^ nat (L - 52)"
  proof -
    have "nat L = 52 + nat (L - 52)" using L by simp
    then show ?thesis by (simp only: power_add)
  qed
  define x where "x = (of_int a :: rat) / pow2 e"
  have "(2::rat) ^ nat L \<le> of_int a"
  proof -
    have "(of_int (2 ^ nat L) :: rat) \<le> of_int a"
      using lo by (simp only: of_int_le_iff)
    then show ?thesis by simp
  qed
  then have "(2::rat) ^ 52 \<le> x"
    by (simp add: x_def pe split pos_le_divide_eq)
  then have "(of_int (2 ^ 52) :: rat) \<le> x" by simp
  then have "2 ^ 52 \<le> \<lfloor>x\<rfloor>"
    by (simp only: le_floor_iff)
  from this round_half_even_ge_floor [of x] have m: "2 ^ 52 \<le> round_half_even x"
    by (rule order_trans)
  define v where "v = (of_int (round_half_even x) :: rat) * pow2 e"
  have "(2::rat) ^ 52 * 2 ^ nat (L - 52) \<le> of_int (round_half_even x) * 2 ^ nat (L - 52)"
  proof (rule mult_right_mono)
    have "(of_int (2 ^ 52) :: rat) \<le> of_int (round_half_even x)"
      using m by (simp only: of_int_le_iff)
    then show "(2::rat) ^ 52 \<le> of_int (round_half_even x)" by simp
  qed simp
  then have "(2::rat) ^ nat L \<le> v"
    by (simp add: v_def pe split)
  moreover have "(2::rat) ^ 1024 \<le> 2 ^ nat L"
    using L by (intro power_increasing) simp_all
  ultimately have v: "pow2 1024 \<le> v"
    by (simp add: pow2_def)
  have nz: "(of_int a :: rat) \<noteq> 0" using a(2) by simp
  have "round_double (n < 0) (of_int a) = (if n < 0 then NegInf else PosInf)"
    using v nz
    by (simp add: round_double_def fl Let_def v_def x_def e_def del: of_int_eq_0_iff)
  then show ?thesis
    by (simp add: a_def)
qed


section \<open>Failures of the pass\<close>

text \<open>Which integers can be written.\<close>

lemma int_str_ok: "\<bar>n\<bar> < 10 ^ k \<Longrightarrow> k \<le> int_max_str_digits \<Longrightarrow> \<not> int_str_raises n"
proof -
  assume a: "\<bar>n\<bar> < 10 ^ k" "k \<le> int_max_str_digits"
  have "(10::int) ^ k \<le> 10 ^ int_max_str_digits"
    using a(2) by (intro power_increasing) simp_all
  with a(1) have "\<bar>n\<bar> < 10 ^ int_max_str_digits" by (rule less_le_trans)
  then show ?thesis by (simp only: int_str_raises_def not_le)
qed

lemma int_str_ok_small: "\<bar>n\<bar> < 1000000 \<Longrightarrow> int_str_raises n = False"
  using int_str_ok [of n 6] by (simp add: int_max_str_digits_def)


text \<open>The handler of line 121, with and without an integer that cannot be written.\<close>

lemma process_pricing_data_handler:
  assumes "try_block data = (Inl e, out)"
  shows "process_pricing_data data =
     (if str_raises data
      then (Inl (ValueError, int_str_limit_msg), out @ [ErrorProcessing (snd e)])
      else (Inl (Exception, ''Failed to process data: '' @ snd e),
            out @ [ErrorProcessing (snd e), DataReceived data]))"
  by (simp add: process_pricing_data_def assms)

lemma try_block_not_dict:
  "\<not> is_dict data \<Longrightarrow>
   try_block data = (Inl (ValueError, ''Expected dict but got '' @ type_name data), [])"
  by (cases data) (simp_all add: try_block_def)

lemma try_block_no_data:
  "\<not> truthy (dict_get kvs ''data'' (PList [])) \<Longrightarrow>
   try_block (PDict kvs) = (Inl (ValueError, no_data_msg), [NoDataWarning (map fst kvs)])"
  by (simp add: try_block_def)

lemma try_block_not_iterable:
  "truthy (dict_get kvs ''data'' (PList [])) \<Longrightarrow> py_iter (dict_get kvs ''data'' (PList [])) = Inl e \<Longrightarrow>
   try_block (PDict kvs) = (Inl e, [])"
  by (simp add: try_block_def)

lemma process_pricing_data_not_dict:
  "\<not> is_dict data \<Longrightarrow>
   fst (process_pricing_data data) =
     (if str_raises data then Inl (ValueError, int_str_limit_msg)
      else Inl (Exception, ''Failed to process data: Expected dict but got '' @ type_name data))"
  by (simp add: process_pricing_data_handler [OF try_block_not_dict])

lemma process_pricing_data_no_data:
  "\<not> truthy (dict_get kvs ''data'' (PList [])) \<Longrightarrow> \<not> str_raises (PDict kvs) \<Longrightarrow>
   fst (process_pricing_data (PDict kvs)) = Inl (Exception, ''Failed to process data: '' @ no_data_msg)"
  by (simp add: process_pricing_data_handler [OF try_block_no_data])

lemma process_pricing_data_not_iterable:
  assumes "truthy (dict_get kvs ''data'' (PList []))"
    and "py_iter (dict_get kvs ''data'' (PList [])) = Inl e"
    and "\<not> str_raises (PDict kvs)"
  shows "fst (process_pricing_data (PDict kvs)) = Inl (Exception, ''Failed to process data: '' @ snd e)"
  using assms(3) by (simp add: process_pricing_data_handler [OF try_block_not_iterable [OF assms(1,2)]])

lemma kind_malformed:
  "spec_failure_kind (Exception, ''Failed to process data: Expected dict but got '' @ t) =
     Some MalformedResponseError"
  by (simp add: spec_failure_kind_def)

lemma kind_no_data:
  "spec_failure_kind (Exception, ''Failed to process data: '' @ no_data_msg) = Some NoDataError"
  by (simp add: spec_failure_kind_def no_data_msg_def)

lemma kind_empty_result:
  "spec_failure_kind (Exception, ''Failed to process data: '' @ error_msg n) = Some EmptyResultError"
  by (simp add: spec_failure_kind_def no_data_msg_def error_msg_def)

lemma kind_fetch:
  "spec_failure_kind (Exception, ''Failed to fetch data: '' @ cause) = Some FetchError"
  by (simp add: spec_failure_kind_def)

lemma kind_not_iterable:
  "spec_failure_kind (Exception, ''Failed to process data: '' @ not_iterable_msg t) = None"
  by (simp add: spec_failure_kind_def no_data_msg_def not_iterable_msg_def)





lemma no_dict_items_details:
  "list_all (\<lambda>i. \<not> is_dict i) items \<Longrightarrow>
   list_all (\<lambda>i. case item_details i of Inr _ \<Rightarrow> True | Inl _ \<Rightarrow> False) items \<and>
   visited_details items = []"
proof (induction items)
  case Nil
  then show ?case by (simp add: visited_details_def)
next
  case (Cons i items)
  then have "item_details i = Inr []"
    by (cases i) (simp_all add: item_details_def)
  with Cons show ?case
    by (simp add: visited_details_Cons)
qed

text \<open>
  C3, as the code has it, for an input that holds no integer of more than
  4300 digits. An input that is not a mapping fails with the text
  \<^verbatim>\<open>Expected dict but got\<close> and the name of its type, the malformed kind. A
  mapping whose \<^verbatim>\<open>data\<close> value is not a sequence of mappings fails in another
  way: with the no-data text when the value is falsy, with the text of the
  TypeError when the value is truthy and cannot be iterated, and with the
  empty-result text, without a count, when it can be iterated and none of its
  items is a mapping.
\<close>

theorem malformed_input_failures:
  "(\<not> is_dict data \<and> \<not> str_raises data \<longrightarrow>
      fst (process_pricing_data data) =
        Inl (Exception, ''Failed to process data: Expected dict but got '' @ type_name data) \<and>
      spec_failure_kind (Exception, ''Failed to process data: Expected dict but got '' @ type_name data) =
        Some MalformedResponseError) \<and>
   (\<not> truthy (dict_get kvs ''data'' (PList [])) \<and> \<not> str_raises (PDict kvs) \<longrightarrow>
      fst (process_pricing_data (PDict kvs)) = Inl (Exception, ''Failed to process data: '' @ no_data_msg)) \<and>
   (truthy (dict_get kvs ''data'' (PList [])) \<and> py_iter (dict_get kvs ''data'' (PList [])) = Inl e \<and>
    \<not> str_raises (PDict kvs) \<longrightarrow>
      fst (process_pricing_data (PDict kvs)) = Inl (Exception, ''Failed to process data: '' @ snd e) \<and>
      spec_failure_kind (Exception, ''Failed to process data: '' @ snd e) = None) \<and>
   (data_items (PDict kvs) = Some items \<and> list_all (\<lambda>i. \<not> is_dict i) items \<and>
    \<not> str_raises (PDict kvs) \<longrightarrow>
      fst (process_pricing_data (PDict kvs)) = Inl (Exception, ''Failed to process data: '' @ error_msg 0) \<and>
      spec_failure_kind (Exception, ''Failed to process data: '' @ error_msg 0) = Some EmptyResultError)"
proof (intro conjI impI)
  assume "\<not> is_dict data \<and> \<not> str_raises data"
  then show "fst (process_pricing_data data) =
      Inl (Exception, ''Failed to process data: Expected dict but got '' @ type_name data)"
    by (simp add: process_pricing_data_not_dict)
next
  show "spec_failure_kind (Exception, ''Failed to process data: Expected dict but got '' @ type_name data) =
      Some MalformedResponseError"
    by (rule kind_malformed)
next
  assume "\<not> truthy (dict_get kvs ''data'' (PList [])) \<and> \<not> str_raises (PDict kvs)"
  then show "fst (process_pricing_data (PDict kvs)) =
      Inl (Exception, ''Failed to process data: '' @ no_data_msg)"
    by (simp add: process_pricing_data_no_data)
next
  assume a: "truthy (dict_get kvs ''data'' (PList [])) \<and> py_iter (dict_get kvs ''data'' (PList [])) = Inl e \<and>
             \<not> str_raises (PDict kvs)"
  then show "fst (process_pricing_data (PDict kvs)) = Inl (Exception, ''Failed to process data: '' @ snd e)"
    by (simp add: process_pricing_data_not_iterable)
  from a py_iter_failure [of "dict_get kvs ''data'' (PList [])" e]
  show "spec_failure_kind (Exception, ''Failed to process data: '' @ snd e) = None"
    using kind_not_iterable by auto
next
  assume a: "data_items (PDict kvs) = Some items \<and> list_all (\<lambda>i. \<not> is_dict i) items \<and>
             \<not> str_raises (PDict kvs)"
  with no_dict_items_details [of items] have "runs_through (PDict kvs)" and "details_of (PDict kvs) = []"
    by (simp_all add: runs_through_def details_of_def)
  with a show "fst (process_pricing_data (PDict kvs)) =
      Inl (Exception, ''Failed to process data: '' @ error_msg 0)"
    by (simp add: process_pricing_data_run valid_records_def invalid_count_def List.map_filter_simps)
next
  show "spec_failure_kind (Exception, ''Failed to process data: '' @ error_msg 0) = Some EmptyResultError"
    by (rule kind_empty_result)
qed

theorem malformed_input_failures_witness:
  "fst (process_pricing_data (PList [PInt 1])) =
     Inl (Exception, ''Failed to process data: Expected dict but got list'') \<and>
   fst (process_pricing_data (PDict [(''data'', PStr ''abc'')])) =
     Inl (Exception, ''Failed to process data: '' @ error_msg 0)"
proof -
  note r = malformed_input_failures
    [of "PList [PInt 1]" "[(''data'', PStr ''abc'')]" "(TypeError, [])"
        "[PStr ''a'', PStr ''b'', PStr ''c'']"]
  have i: "data_items (PDict [(''data'', PStr ''abc'')]) = Some [PStr ''a'', PStr ''b'', PStr ''c''] \<and>
           list_all (\<lambda>i. \<not> is_dict i) [PStr ''a'', PStr ''b'', PStr ''c''] \<and>
           \<not> str_raises (PDict [(''data'', PStr ''abc'')])"
    by (simp add: data_items_def dict_get_def)
  have n: "\<not> is_dict (PList [PInt 1]) \<and> \<not> str_raises (PList [PInt 1])"
    by (simp add: int_str_ok_small)
  from r n have "fst (process_pricing_data (PList [PInt 1])) =
      Inl (Exception, ''Failed to process data: Expected dict but got '' @ type_name (PList [PInt 1]))"
    by blast
  moreover from r i have "fst (process_pricing_data (PDict [(''data'', PStr ''abc'')])) =
      Inl (Exception, ''Failed to process data: '' @ error_msg 0)"
    by blast
  ultimately show ?thesis by simp
qed

theorem data_without_mappings_counterexample:
  "fst (process_pricing_data (PDict [(''data'', PList [PInt 1, PInt 2])])) =
     Inl (Exception, ''Failed to process data: No valid pricing data records found after processing. This may indicate: (1) No data available for the selected date range, (2) API response structure changed, or (3) All records had parsing errors.'') \<and>
   spec_failure_kind (Exception, ''Failed to process data: No valid pricing data records found after processing. This may indicate: (1) No data available for the selected date range, (2) API response structure changed, or (3) All records had parsing errors.'') \<noteq>
     Some MalformedResponseError"
  by (simp add: process_pricing_data_def try_block_def dict_get_def process_item_def error_msg_def
                spec_failure_kind_def no_data_msg_def int_str_ok_small)

lemma error_msg_count:
  "0 < n \<Longrightarrow> sublist ('' Skipped '' @ str_nat n @ '' invalid records.'') (error_msg n)"
  unfolding error_msg_def sublist_def by (simp only: if_True) blast

text \<open>
  C5, as the code has it. When a response that holds no integer of more than
  4300 digits runs through and gives no valid record, the pass fails with the
  empty-result text. The text holds the number
  of records counted as invalid when that number is positive, and no number
  when it is zero.
\<close>

theorem empty_result_error:
  assumes "runs_through data" and "valid_records (details_of data) = []"
    and "\<not> str_raises data"
  shows "fst (process_pricing_data data) =
           Inl (Exception, ''Failed to process data: '' @ error_msg (invalid_count (details_of data))) \<and>
         spec_failure_kind
           (Exception, ''Failed to process data: '' @ error_msg (invalid_count (details_of data))) =
           Some EmptyResultError \<and>
         (0 < invalid_count (details_of data) \<longrightarrow>
            sublist ('' Skipped '' @ str_nat (invalid_count (details_of data)) @ '' invalid records.'')
              (error_msg (invalid_count (details_of data)))) \<and>
         (invalid_count (details_of data) = 0 \<longrightarrow>
            error_msg (invalid_count (details_of data)) =
              ''No valid pricing data records found after processing. This may indicate: (1) No data available for the selected date range, (2) API response structure changed, or (3) All records had parsing errors.'')"
proof (intro conjI impI)
  show "fst (process_pricing_data data) =
      Inl (Exception, ''Failed to process data: '' @ error_msg (invalid_count (details_of data)))"
    using assms by (simp add: process_pricing_data_run)
next
  show "spec_failure_kind
      (Exception, ''Failed to process data: '' @ error_msg (invalid_count (details_of data))) =
      Some EmptyResultError"
    by (rule kind_empty_result)
next
  assume "0 < invalid_count (details_of data)"
  then show "sublist ('' Skipped '' @ str_nat (invalid_count (details_of data)) @ '' invalid records.'')
      (error_msg (invalid_count (details_of data)))"
    by (rule error_msg_count)
next
  assume "invalid_count (details_of data) = 0"
  then show "error_msg (invalid_count (details_of data)) =
      ''No valid pricing data records found after processing. This may indicate: (1) No data available for the selected date range, (2) API response structure changed, or (3) All records had parsing errors.''"
    by (simp add: error_msg_def)
qed

theorem empty_result_error_witness:
  "runs_through
     (PDict [(''data'', PList [PDict [(''priceDetails'',
        PList [PDict [(''startIntervalTimeStamp'', PStr ''yesterday''),
                      (''intervalPrice'', PStr ''12.5'')]])]])]) \<and>
   fst (process_pricing_data
     (PDict [(''data'', PList [PDict [(''priceDetails'',
        PList [PDict [(''startIntervalTimeStamp'', PStr ''yesterday''),
                      (''intervalPrice'', PStr ''12.5'')]])]])])) =
   Inl (Exception, ''Failed to process data: No valid pricing data records found after processing. Skipped 1 invalid records. This may indicate: (1) No data available for the selected date range, (2) API response structure changed, or (3) All records had parsing errors.'')"
proof -
  let ?X = "PDict [(''data'', PList [PDict [(''priceDetails'',
        PList [PDict [(''startIntervalTimeStamp'', PStr ''yesterday''),
                      (''intervalPrice'', PStr ''12.5'')]])]])]"
  have h1: "runs_through ?X" by code_simp
  have h2: "valid_records (details_of ?X) = []" by code_simp
  have h3: "invalid_count (details_of ?X) = 1" by code_simp
  have h5: "\<not> str_raises ?X" by simp
  have "str_nat 1 = ''1''" by code_simp
  then have h4: "str_nat (Suc 0) = ''1''" by simp
  from empty_result_error [OF h1 h2 h5]
  have "fst (process_pricing_data ?X) =
      Inl (Exception, ''Failed to process data: '' @ error_msg (invalid_count (details_of ?X)))"
    by (rule conjunct1)
  with h1 show ?thesis
    by (simp add: h3 error_msg_def h4)
qed

theorem empty_result_without_count_counterexample:
  "invalid_count (details_of (PDict [(''data'', PList [PDict [(''priceDetails'',
        PList [PDict [(''startIntervalTimeStamp'', PStr ''2024-01-01T00:00:00''),
                      (''intervalPrice'', PNone)]])]])])) = 0 \<and>
   fst (process_pricing_data (PDict [(''data'', PList [PDict [(''priceDetails'',
        PList [PDict [(''startIntervalTimeStamp'', PStr ''2024-01-01T00:00:00''),
                      (''intervalPrice'', PNone)]])]])])) =
     Inl (Exception, ''Failed to process data: No valid pricing data records found after processing. This may indicate: (1) No data available for the selected date range, (2) API response structure changed, or (3) All records had parsing errors.'') \<and>
   \<not> sublist (str_nat 0) ''Failed to process data: No valid pricing data records found after processing. This may indicate: (1) No data available for the selected date range, (2) API response structure changed, or (3) All records had parsing errors.''"
proof (intro conjI)
  show "invalid_count (details_of (PDict [(''data'', PList [PDict [(''priceDetails'',
        PList [PDict [(''startIntervalTimeStamp'', PStr ''2024-01-01T00:00:00''),
                      (''intervalPrice'', PNone)]])]])])) = 0"
    by code_simp
  show "fst (process_pricing_data (PDict [(''data'', PList [PDict [(''priceDetails'',
        PList [PDict [(''startIntervalTimeStamp'', PStr ''2024-01-01T00:00:00''),
                      (''intervalPrice'', PNone)]])]])])) =
     Inl (Exception, ''Failed to process data: No valid pricing data records found after processing. This may indicate: (1) No data available for the selected date range, (2) API response structure changed, or (3) All records had parsing errors.'')"
    by code_simp
  show "\<not> sublist (str_nat 0) ''Failed to process data: No valid pricing data records found after processing. This may indicate: (1) No data available for the selected date range, (2) API response structure changed, or (3) All records had parsing errors.''"
    by code_simp
qed

lemma fetch_energy_data_failure:
  "fst (fetch_energy_data get start_date end_date) = Inl x \<Longrightarrow>
   \<exists>cause. x = (Exception, ''Failed to fetch data: '' @ cause)"
  by (auto simp: fetch_energy_data_def Let_def split: sum.splits option.splits)

lemma process_pricing_data_failure:
  assumes "fst (process_pricing_data data) = Inl y" and "\<not> str_raises data"
  shows "\<exists>e out. try_block data = (Inl e, out) \<and> y = (Exception, ''Failed to process data: '' @ snd e)"
proof (cases "try_block data")
  case (Pair r out)
  with assms show ?thesis
    by (cases r) (auto simp: process_pricing_data_def)
qed

text \<open>
  C7, as the code has it. A failure of the fetch is an \<^verbatim>\<open>Exception\<close> whose
  text begins with \<^verbatim>\<open>Failed to fetch data:\<close>, the fetch kind. Every failure of
  the pass on an input that holds no integer of more than 4300 digits is an
  \<^verbatim>\<open>Exception\<close> whose text begins with \<^verbatim>\<open>Failed to process data:\<close>, which is not
  the fetch kind; when, moreover, no detail record is fatal, the text goes on
  with one of four texts: the three of the malformed, no-data and empty-result
  kinds, or the text of the TypeError of a value that cannot be iterated,
  which is none of the four kinds.
\<close>

theorem failures_tell_their_kind:
  "(fst (fetch_energy_data get start_date end_date) = Inl x \<longrightarrow>
      (\<exists>cause. x = (Exception, ''Failed to fetch data: '' @ cause)) \<and>
      spec_failure_kind x = Some FetchError) \<and>
   (\<not> str_raises data \<and> fst (process_pricing_data data) = Inl y \<longrightarrow>
      (\<exists>m. y = (Exception, ''Failed to process data: '' @ m)) \<and>
      spec_failure_kind y \<noteq> Some FetchError \<and>
      (list_all (\<lambda>d. \<not> fatal_record d) (details_of data) \<longrightarrow>
         \<not> is_dict data \<and> spec_failure_kind y = Some MalformedResponseError \<or>
         y = (Exception, ''Failed to process data: '' @ no_data_msg) \<and>
           spec_failure_kind y = Some NoDataError \<or>
         (\<exists>n. y = (Exception, ''Failed to process data: '' @ error_msg n)) \<and>
           spec_failure_kind y = Some EmptyResultError \<or>
         (\<exists>t. y = (Exception, ''Failed to process data: '' @ not_iterable_msg t)) \<and>
           spec_failure_kind y = None))"
proof (intro conjI impI)
  assume "fst (fetch_energy_data get start_date end_date) = Inl x"
  from fetch_energy_data_failure [OF this]
  show "\<exists>cause. x = (Exception, ''Failed to fetch data: '' @ cause)"
    and "spec_failure_kind x = Some FetchError"
    using kind_fetch by auto
next
  assume a: "\<not> str_raises data \<and> fst (process_pricing_data data) = Inl y"
  then obtain e out where t: "try_block data = (Inl e, out)"
    and y: "y = (Exception, ''Failed to process data: '' @ snd e)"
    using process_pricing_data_failure by blast
  from y show "\<exists>m. y = (Exception, ''Failed to process data: '' @ m)"
    by blast
  from y show "spec_failure_kind y \<noteq> Some FetchError"
    by (simp add: spec_failure_kind_def)
  assume "list_all (\<lambda>d. \<not> fatal_record d) (details_of data)"
  then have nf: "\<not> (\<exists>d\<in>set (details_of data). fatal_record d)"
    by (simp add: list_all_iff)
  from try_block_failure [OF t] nf
  consider (malformed) "e = (ValueError, ''Expected dict but got '' @ type_name data)" "\<not> is_dict data"
    | (nodata) "e = (ValueError, no_data_msg)"
    | (empty) n where "e = (ValueError, error_msg n)"
    | (iter) t where "e = (TypeError, not_iterable_msg t)"
    by blast
  then show "\<not> is_dict data \<and> spec_failure_kind y = Some MalformedResponseError \<or>
       y = (Exception, ''Failed to process data: '' @ no_data_msg) \<and>
         spec_failure_kind y = Some NoDataError \<or>
       (\<exists>n. y = (Exception, ''Failed to process data: '' @ error_msg n)) \<and>
         spec_failure_kind y = Some EmptyResultError \<or>
       (\<exists>t. y = (Exception, ''Failed to process data: '' @ not_iterable_msg t)) \<and>
         spec_failure_kind y = None"
  proof cases
    case malformed
    with y kind_malformed [of "type_name data"] show ?thesis by simp
  next
    case nodata
    with y kind_no_data show ?thesis by simp
  next
    case (empty n)
    with y kind_empty_result [of n] show ?thesis by auto
  next
    case (iter t)
    with y kind_not_iterable [of t] show ?thesis by auto
  qed
qed

theorem failures_tell_their_kind_witness:
  "fst (fetch_energy_data (\<lambda>url ps. Inl ''timed out'') ''20240101'' ''20240102'') =
     Inl (Exception, ''Failed to fetch data: timed out'') \<and>
   spec_failure_kind (Exception, ''Failed to fetch data: timed out'') = Some FetchError \<and>
   fst (process_pricing_data (PDict [])) = Inl (Exception, ''Failed to process data: '' @ no_data_msg) \<and>
   spec_failure_kind (Exception, ''Failed to process data: '' @ no_data_msg) \<noteq> Some FetchError \<and>
   list_all (\<lambda>d. \<not> fatal_record d) (details_of (PDict [])) \<and>
   (\<not> is_dict (PDict []) \<and>
      spec_failure_kind (Exception, ''Failed to process data: '' @ no_data_msg) =
        Some MalformedResponseError \<or>
    (Exception, ''Failed to process data: '' @ no_data_msg) =
      (Exception, ''Failed to process data: '' @ no_data_msg) \<and>
      spec_failure_kind (Exception, ''Failed to process data: '' @ no_data_msg) = Some NoDataError \<or>
    (\<exists>n. (Exception, ''Failed to process data: '' @ no_data_msg) =
          (Exception, ''Failed to process data: '' @ error_msg n)) \<and>
      spec_failure_kind (Exception, ''Failed to process data: '' @ no_data_msg) =
        Some EmptyResultError \<or>
    (\<exists>t. (Exception, ''Failed to process data: '' @ no_data_msg) =
          (Exception, ''Failed to process data: '' @ not_iterable_msg t)) \<and>
      spec_failure_kind (Exception, ''Failed to process data: '' @ no_data_msg) = None)"
proof -
  have f: "fst (fetch_energy_data (\<lambda>url ps. Inl ''timed out'') ''20240101'' ''20240102'') =
      Inl (Exception, ''Failed to fetch data: timed out'')"
    by (simp add: fetch_energy_data_def)
  have p: "\<not> str_raises (PDict []) \<and>
      fst (process_pricing_data (PDict [])) = Inl (Exception, ''Failed to process data: '' @ no_data_msg)"
    by (simp add: dict_get_def process_pricing_data_no_data)
  have q: "list_all (\<lambda>d. \<not> fatal_record d) (details_of (PDict []))"
    by (simp add: details_of_def data_items_def dict_get_def)
  note r = failures_tell_their_kind
    [of "\<lambda>url ps. Inl ''timed out''" "''20240101''" "''20240102''"
        "(Exception, ''Failed to fetch data: timed out'')" "PDict []"
        "(Exception, ''Failed to process data: '' @ no_data_msg)"]
  from r [THEN conjunct1, THEN mp, OF f]
  have 1: "spec_failure_kind (Exception, ''Failed to fetch data: timed out'') = Some FetchError"
    by (rule conjunct2)
  note s = r [THEN conjunct2, THEN mp, OF p]
  from s
  have 2: "spec_failure_kind (Exception, ''Failed to process data: '' @ no_data_msg) \<noteq> Some FetchError"
    by (elim conjE)
  from s q
  have 3: "(\<not> is_dict (PDict []) \<and>
      spec_failure_kind (Exception, ''Failed to process data: '' @ no_data_msg) =
        Some MalformedResponseError \<or>
    (Exception, ''Failed to process data: '' @ no_data_msg) =
      (Exception, ''Failed to process data: '' @ no_data_msg) \<and>
      spec_failure_kind (Exception, ''Failed to process data: '' @ no_data_msg) = Some NoDataError \<or>
    (\<exists>n. (Exception, ''Failed to process data: '' @ no_data_msg) =
          (Exception, ''Failed to process data: '' @ error_msg n)) \<and>
      spec_failure_kind (Exception, ''Failed to process data: '' @ no_data_msg) =
        Some EmptyResultError \<or>
    (\<exists>t. (Exception, ''Failed to process data: '' @ no_data_msg) =
          (Exception, ''Failed to process data: '' @ not_iterable_msg t)) \<and>
      spec_failure_kind (Exception, ''Failed to process data: '' @ no_data_msg) = None)"
    by (elim conjE impE)
  from f p 1 2 q 3 show ?thesis
    by (elim conjE, intro conjI) assumption+
qed

theorem uncategorised_failure_counterexample:
  "fst (process_pricing_data (PDict [(''data'', PInt 5)])) =
     Inl (Exception, ''Failed to process data: '' @ [CHR 0x27] @ ''int'' @ [CHR 0x27] @ '' object is not iterable'') \<and>
   spec_failure_kind
     (Exception, ''Failed to process data: '' @ [CHR 0x27] @ ''int'' @ [CHR 0x27] @ '' object is not iterable'') =
     None"
  by (simp add: process_pricing_data_def try_block_def dict_get_def not_iterable_msg_def
                spec_failure_kind_def no_data_msg_def int_str_ok_small)

section \<open>Prices that are zero\<close>

lemma falsy_price_zero:
  assumes "\<not> truthy p" and "py_float p = Inr f"
  shows "f = Finite 0 \<or> f = NegZero"
proof (cases p)
  case (PInt n)
  with assms show ?thesis by (simp add: round_double_def)
next
  case (PStr s)
  with assms have "float_of_string [] = Inr f" by simp
  then show ?thesis
    by (simp add: float_of_string_def strip_def split_sign_def decimal_of_def)
qed (use assms in auto)

lemma float_of_string_zero: "py_float (PStr ''0'') = Inr (Finite 0)"
  by code_simp

lemma valid_record_in_valid_records:
  "d \<in> set ds \<Longrightarrow> valid_record d = Some r \<Longrightarrow> r \<in> set (valid_records ds)"
  by (force simp: valid_records_def List.map_filter_def)

text \<open>
  C10. A detail record whose timestamp parses and whose price is falsy but not
  null and converts to a float (0, 0.0, False), or is the string \<^verbatim>\<open>0\<close>, is not
  passed over: the round appends a record whose price is 0.0 (or -0.0, which is
  equal to it), and when the response runs through, that record is a row of the
  result.
\<close>

theorem zero_price_is_kept:
  assumes "parse_datetime (dict_get kvs ''startIntervalTimeStamp'' PNone) = Inr dt"
    and "p = dict_get kvs ''intervalPrice'' PNone"
    and "p \<noteq> PNone"
    and "\<not> truthy p \<or> p = PStr ''0''"
    and "py_float p = Inr f"
  shows "(f = Finite 0 \<or> f = NegZero) \<and>
         process_detail st (PDict kvs) =
           (Inr (st\<lparr>pricing_data := pricing_data st @ [\<lparr>datetime = dt, price = f\<rparr>]\<rparr>), []) \<and>
         (runs_through data \<and> PDict kvs \<in> set (details_of data) \<longrightarrow>
            (\<exists>df out. process_pricing_data data = (Inr df, out) \<and>
                       \<lparr>datetime = dt, price = f\<rparr> \<in> set df))"
proof (intro conjI impI)
  from assms(4) show "f = Finite 0 \<or> f = NegZero"
  proof
    assume "\<not> truthy p"
    from falsy_price_zero [OF this assms(5)] show ?thesis .
  next
    assume "p = PStr ''0''"
    with assms(5) float_of_string_zero show ?thesis by simp
  qed
next
  have v: "valid_record (PDict kvs) = Some \<lparr>datetime = dt, price = f\<rparr>"
    using assms(1,2,5) by (simp add: valid_record_def detail_fields_def parse_record_def)
  from process_detail_valid [OF v]
  show "process_detail st (PDict kvs) =
      (Inr (st\<lparr>pricing_data := pricing_data st @ [\<lparr>datetime = dt, price = f\<rparr>]\<rparr>), [])" .
  assume r: "runs_through data \<and> PDict kvs \<in> set (details_of data)"
  then have "PDict kvs \<in> set (details_of data)" by (rule conjunct2)
  from valid_record_in_valid_records [OF this v]
  have m: "\<lparr>datetime = dt, price = f\<rparr> \<in> set (valid_records (details_of data))" .
  then have "valid_records (details_of data) \<noteq> []" by auto
  with r m show "\<exists>df out. process_pricing_data data = (Inr df, out) \<and>
      \<lparr>datetime = dt, price = f\<rparr> \<in> set df"
    by (simp add: process_pricing_data_run sort_values_set)
qed

theorem zero_price_is_kept_witness:
  "fst (process_pricing_data
     (PDict [(''data'', PList [PDict [(''priceDetails'',
        PList [PDict [(''startIntervalTimeStamp'', PStr ''2024-01-01T00:00:00-0800''),
                      (''intervalPrice'', PInt 0)]])]])])) =
   Inr [\<lparr>datetime = \<lparr>year = 2024, month = 1, day = 1, hour = 0, minute = 0, second = 0\<rparr>,
         price = Finite 0\<rparr>]"
proof -
  let ?kvs = "[(''startIntervalTimeStamp'', PStr ''2024-01-01T00:00:00-0800''),
               (''intervalPrice'', PInt 0)]"
  let ?X = "PDict [(''data'', PList [PDict [(''priceDetails'', PList [PDict ?kvs])]])]"
  let ?dt = "\<lparr>year = 2024, month = 1, day = 1, hour = 0, minute = 0, second = 0\<rparr>"
  have a1: "parse_datetime (dict_get ?kvs ''startIntervalTimeStamp'' PNone) = Inr ?dt"
    by code_simp
  have a2: "PInt 0 = dict_get ?kvs ''intervalPrice'' PNone"
    by (simp add: dict_get_def)
  have a5: "py_float (PInt 0) = Inr (Finite 0)"
    by (simp add: round_double_def)
  have vr: "valid_record (PDict ?kvs) = Some \<lparr>datetime = ?dt, price = Finite 0\<rparr>"
    by code_simp
  have r: "runs_through ?X"
    by (simp add: runs_through_def data_items_def item_details_def visited_details_def dict_get_def
                  valid_not_invalid [OF vr])
  have d: "details_of ?X = [PDict ?kvs]" by code_simp
  have v: "valid_records [PDict ?kvs] = [\<lparr>datetime = ?dt, price = Finite 0\<rparr>]" by code_simp
  have sk: "skip_lines (PDict ?kvs) = []" by code_simp
  have a3: "PInt 0 \<noteq> PNone" by simp
  have a4: "\<not> truthy (PInt 0) \<or> PInt 0 = PStr ''0''" by simp
  have m: "runs_through ?X \<and> PDict ?kvs \<in> set (details_of ?X)"
    using r d by simp
  note t = zero_price_is_kept [OF a1 a2 a3 a4 a5, of "\<lparr>pricing_data = [], skipped_count = 0\<rparr>" ?X]
  from t [THEN conjunct2, THEN conjunct2, THEN mp, OF m]
  obtain df out where "process_pricing_data ?X = (Inr df, out)"
    and "\<lparr>datetime = ?dt, price = Finite 0\<rparr> \<in> set df"
    by blast
  moreover have "process_pricing_data ?X = (Inr [\<lparr>datetime = ?dt, price = Finite 0\<rparr>], [])"
    using r sk by (simp add: process_pricing_data_run d v sort_values_def)
  ultimately show ?thesis by simp
qed

section \<open>A price that is too large for a float\<close>

lemma oversized_integer_price:
  assumes "2 ^ 1024 \<le> \<bar>n\<bar>" and "\<not> int_str_raises n"
  shows "fst (process_pricing_data
     (PDict [(''data'', PList [PDict [(''priceDetails'',
        PList [PDict [(''startIntervalTimeStamp'', PStr ''2024-01-01T00:00:00-0800''),
                      (''intervalPrice'', PStr ''12.5'')],
               PDict [(''startIntervalTimeStamp'', PStr ''2024-01-01T01:00:00-0800''),
                      (''intervalPrice'', PInt n)]])]])])) =
   Inl (Exception, ''Failed to process data: '' @ float_overflow_msg)"
proof -
  let ?v = "PDict [(''startIntervalTimeStamp'', PStr ''2024-01-01T00:00:00-0800''),
                   (''intervalPrice'', PStr ''12.5'')]"
  let ?o = "PDict [(''startIntervalTimeStamp'', PStr ''2024-01-01T01:00:00-0800''),
                   (''intervalPrice'', PInt n)]"
  let ?r = "\<lparr>datetime = \<lparr>year = 2024, month = 1, day = 1, hour = 0, minute = 0, second = 0\<rparr>,
             price = Finite (25 / 2)\<rparr>"
  have v: "valid_record ?v = Some ?r"
    by code_simp
  have t: "parse_datetime (PStr ''2024-01-01T01:00:00-0800'') =
      Inr \<lparr>year = 2024, month = 1, day = 1, hour = 1, minute = 0, second = 0\<rparr>"
    by code_simp
  have d: "detail_fields ?o = Some (PStr ''2024-01-01T01:00:00-0800'', PInt n)"
    by (simp add: detail_fields_def dict_get_def)
  have f: "parse_record (PStr ''2024-01-01T01:00:00-0800'') (PInt n) = Inl OverflowError"
    by (simp add: parse_record_def t py_float_int_overflow [OF assms(1)] del: py_float.simps)
  show ?thesis
    using assms(2)
    by (simp add: process_pricing_data_def try_block_def process_item_def dict_get_def
                  process_detail_valid [OF v] process_detail_overflow [OF d f])
qed

text \<open>
  C1 says that a response with valid and invalid records returns the valid
  ones. The response below has one valid record and one whose timestamp parses
  and whose price is the integer \<open>10 ^ 400\<close>: \<^verbatim>\<open>float\<close> raises OverflowError,
  the handler of line 99 does not catch it, and the whole pass fails. The
  integer has 401 digits, so the handler of line 121 can write the response.
\<close>

theorem oversized_integer_price_aborts:
  "valid_record (PDict [(''startIntervalTimeStamp'', PStr ''2024-01-01T00:00:00-0800''),
                        (''intervalPrice'', PStr ''12.5'')]) =
     Some \<lparr>datetime = \<lparr>year = 2024, month = 1, day = 1, hour = 0, minute = 0, second = 0\<rparr>,
           price = Finite (25 / 2)\<rparr> \<and>
   parse_datetime (PStr ''2024-01-01T01:00:00-0800'') =
     Inr \<lparr>year = 2024, month = 1, day = 1, hour = 1, minute = 0, second = 0\<rparr> \<and>
   py_float (PInt (10 ^ 400)) = Inl OverflowError \<and>
   fst (process_pricing_data
     (PDict [(''data'', PList [PDict [(''priceDetails'',
        PList [PDict [(''startIntervalTimeStamp'', PStr ''2024-01-01T00:00:00-0800''),
                      (''intervalPrice'', PStr ''12.5'')],
               PDict [(''startIntervalTimeStamp'', PStr ''2024-01-01T01:00:00-0800''),
                      (''intervalPrice'', PInt (10 ^ 400))]])]])])) =
   Inl (Exception, ''Failed to process data: int too large to convert to float'')"
proof -
  have v: "valid_record (PDict [(''startIntervalTimeStamp'', PStr ''2024-01-01T00:00:00-0800''),
                                (''intervalPrice'', PStr ''12.5'')]) =
      Some \<lparr>datetime = \<lparr>year = 2024, month = 1, day = 1, hour = 0, minute = 0, second = 0\<rparr>,
            price = Finite (25 / 2)\<rparr>"
    by code_simp
  have t: "parse_datetime (PStr ''2024-01-01T01:00:00-0800'') =
      Inr \<lparr>year = 2024, month = 1, day = 1, hour = 1, minute = 0, second = 0\<rparr>"
    by code_simp
  have b: "(2::int) ^ 1024 \<le> \<bar>10 ^ 400\<bar>"
    by simp
  have c: "\<not> int_str_raises (10 ^ 400)"
    by (rule int_str_ok [of _ 401]) (simp_all add: int_max_str_digits_def)
  from v t py_float_int_overflow [OF b] oversized_integer_price [OF b c] show ?thesis
    by (simp only: float_overflow_msg_def append.simps simp_thms)
qed

section \<open>The cleanup and the parse, against the wording of the specification\<close>























end
